theory Spec2Isabelle
  imports Complex_Main
begin

section \<open>The client component (src/src/App.tsx)\<close>

text \<open>
  The repository's source is one React component, \<^verbatim>\<open>App\<close>. Its React state
  variables and refs are the fields of a record; every event handler of the component is
  a function from state to state. The browser facilities the handlers call
  (\<^verbatim>\<open>window.setInterval\<close>, \<^verbatim>\<open>window.clearInterval\<close>, \<^verbatim>\<open>setTimeout\<close>,
  \<^verbatim>\<open>socket.emit\<close>, \<^verbatim>\<open>fetch\<close>) act on further fields of the same record: the
  table of live interval timers, the pending timeouts, and the logs of messages emitted
  and requests sent.

  A function created during a render closes over that render's constants. The interval
  callback created by \<^verbatim>\<open>startVideoStreaming\<close> reads the constant \<^verbatim>\<open>deficiency\<close>
  of the render its \<^verbatim>\<open>startVideoStreaming\<close> belongs to, so each timer carries that
  value with it. Refs (\<^verbatim>\<open>socketRef\<close>, \<^verbatim>\<open>streamIntervalRef\<close>) are shared by all
  renders and are read at the time of the call.
\<close>

subsection \<open>JavaScript values\<close>

type_synonym payload = "(string \<times> string) list"

text \<open>An object with text-valued fields; reading an absent field gives \<^verbatim>\<open>undefined\<close>,
  which, like \<^verbatim>\<open>null\<close>, is \<open>None\<close>.\<close>

definition get_field :: "string \<Rightarrow> payload \<Rightarrow> string option" where
  "get_field k obj = map_of obj k"

text \<open>Truthiness of a string-or-null value: \<^verbatim>\<open>null\<close>, \<^verbatim>\<open>undefined\<close> and the empty
  string are falsy.\<close>

definition truthy :: "string option \<Rightarrow> bool" where
  "truthy v = (case v of None \<Rightarrow> False | Some t \<Rightarrow> t \<noteq> [])"

text \<open>\<^verbatim>\<open>a || b\<close> on a string-or-undefined left operand.\<close>

definition or_else :: "string option \<Rightarrow> string \<Rightarrow> string" where
  "or_else v d = (case v of None \<Rightarrow> d | Some t \<Rightarrow> if t = [] then d else t)"

text \<open>\<^verbatim>\<open>a || b\<close> on numbers: zero is falsy.\<close>

definition or_else_num :: "int \<Rightarrow> int \<Rightarrow> int" where
  "or_else_num a b = (if a = 0 then b else a)"

definition startsWith :: "string \<Rightarrow> string \<Rightarrow> bool" where
  "startsWith t p = (take (length p) t = p)"

subsection \<open>State\<close>

text \<open>A socket.io client socket: whether it is connected, and the value of
  \<^verbatim>\<open>isVideoStreaming\<close> its handlers closed over when the effect registered them.\<close>

record socket =
  sock_connected :: bool
  sock_isVideoStreaming :: bool

text \<open>A live interval timer: its id, its delay in milliseconds, and the
  \<^verbatim>\<open>deficiency\<close> its callback closed over.\<close>

record interval_timer =
  timer_id :: nat
  timer_delay :: nat
  timer_deficiency :: string

record js_file =
  file_name :: string
  file_type :: string
  file_blob :: string

record http_request =
  req_url :: string
  req_method :: string
  req_body :: "(string \<times> js_file) list"

record app_state =
  capturedImage :: "js_file option"
  deficiency :: string
  imageURL :: "string option"
  previewURL :: "string option"
  isLoading :: bool
  cameraActive :: bool
  errorMessage :: "string option"
  isVideoMode :: bool
  isVideoStreaming :: bool
  processedVideoFrame :: "string option"
  socketRef :: "socket option"
  streamIntervalRef :: "nat option"
  intervals :: "interval_timer list"
  timeouts :: "string list"
  next_timer_id :: nat
  emitted :: "(string \<times> payload) list"
  requests :: "http_request list"

text \<open>The \<^verbatim>\<open>useState\<close> and \<^verbatim>\<open>useRef\<close> initial values (lines 5-18); no timer is
  live, nothing has been sent. Timer ids handed out by the browser are positive.\<close>

definition initial_state :: app_state where
  "initial_state = \<lparr>
     capturedImage = None,
     deficiency = ''deuteranopia'',
     imageURL = None,
     previewURL = None,
     isLoading = False,
     cameraActive = False,
     errorMessage = None,
     isVideoMode = False,
     isVideoStreaming = False,
     processedVideoFrame = None,
     socketRef = None,
     streamIntervalRef = None,
     intervals = [],
     timeouts = [],
     next_timer_id = 1,
     emitted = [],
     requests = [] \<rparr>"

text \<open>The \<^verbatim>\<open>option\<close> values of the deficiency \<^verbatim>\<open>select\<close> (lines 649-651).\<close>

definition deficiency_options :: "string list" where
  "deficiency_options = [''protanopia'', ''deuteranopia'', ''tritanopia'']"

subsection \<open>Browser timers\<close>

definition clearInterval :: "nat \<Rightarrow> app_state \<Rightarrow> app_state" where
  "clearInterval i s = s\<lparr>intervals := filter (\<lambda>t. timer_id t \<noteq> i) (intervals s)\<rparr>"

text \<open>\<^verbatim>\<open>window.setInterval(callback, delay)\<close>: the new timer gets the next id, which
  is returned; \<open>d\<close> is the \<^verbatim>\<open>deficiency\<close> the callback closes over.\<close>

definition setInterval :: "string \<Rightarrow> nat \<Rightarrow> app_state \<Rightarrow> app_state" where
  "setInterval d delay s =
     s\<lparr>intervals := intervals s @
          [\<lparr>timer_id = next_timer_id s, timer_delay = delay, timer_deficiency = d\<rparr>],
       next_timer_id := Suc (next_timer_id s)\<rparr>"

text \<open>\<^verbatim>\<open>if (streamIntervalRef.current)\<close>: a number-or-null is truthy when it is a
  non-zero number.\<close>

definition truthy_id :: "nat option \<Rightarrow> bool" where
  "truthy_id r = (case r of None \<Rightarrow> False | Some i \<Rightarrow> i \<noteq> 0)"

subsection \<open>Streaming: start, stop, the interval callback\<close>

text \<open>What a tick of the interval finds in the page: the \<^verbatim>\<open>video-stream\<close> element
  (if any), its ready state and intrinsic size, whether the canvas gives a 2d context,
  whether drawing or encoding throws, and the string \<^verbatim>\<open>canvas.toDataURL\<close> returns.\<close>

record video_env =
  element_present :: bool
  readyState :: nat
  videoWidth :: int
  videoHeight :: int
  context_available :: bool
  capture_throws :: bool
  toDataURL :: string

definition HAVE_ENOUGH_DATA :: nat where
  "HAVE_ENOUGH_DATA = 4"

definition frame_width :: "video_env \<Rightarrow> int" where
  "frame_width env = or_else_num (videoWidth env) 640"

definition frame_height :: "video_env \<Rightarrow> int" where
  "frame_height env = or_else_num (videoHeight env) 480"

definition video_frame_message :: "string \<Rightarrow> string \<Rightarrow> string \<times> payload" where
  "video_frame_message frameData d =
     (''video_frame'', [(''frame'', frameData), (''deficiency'', d)])"

text \<open>The callback passed to \<^verbatim>\<open>setInterval\<close> (lines 113-156), with \<open>d\<close> the
  \<^verbatim>\<open>deficiency\<close> it closed over. Every branch that does not emit only logs.\<close>

definition interval_callback :: "string \<Rightarrow> video_env \<Rightarrow> app_state \<Rightarrow> app_state" where
  "interval_callback d env s =
     (case socketRef s of
        None \<Rightarrow> s
      | Some sock \<Rightarrow>
          if element_present env \<and> sock_connected sock \<and> readyState env = HAVE_ENOUGH_DATA
          then
            if frame_width env \<le> 0 \<or> frame_height env \<le> 0 then s
            else if \<not> context_available env then s
            else if capture_throws env then s
            else if toDataURL env \<noteq> [] \<and> startsWith (toDataURL env) ''data:image/jpeg;base64,''
            then s\<lparr>emitted := emitted s @ [video_frame_message (toDataURL env) d]\<rparr>
            else s
          else s)"

text \<open>\<^verbatim>\<open>startVideoStreaming\<close> (lines 106-157) of a render whose \<^verbatim>\<open>deficiency\<close>
  is \<open>d\<close>.\<close>

definition startVideoStreaming :: "string \<Rightarrow> app_state \<Rightarrow> app_state" where
  "startVideoStreaming d s =
     (let s1 = s\<lparr>isVideoStreaming := True\<rparr>;
          s2 = (if truthy_id (streamIntervalRef s1)
                then clearInterval (the (streamIntervalRef s1)) s1 else s1)
      in (setInterval d 100 s2)\<lparr>streamIntervalRef := Some (next_timer_id s2)\<rparr>)"

text \<open>\<^verbatim>\<open>stopVideoStreaming\<close> (lines 159-167).\<close>

definition stopVideoStreaming :: "app_state \<Rightarrow> app_state" where
  "stopVideoStreaming s =
     (let s1 = s\<lparr>isVideoStreaming := False, processedVideoFrame := None\<rparr>
      in if truthy_id (streamIntervalRef s1)
         then (clearInterval (the (streamIntervalRef s1)) s1)\<lparr>streamIntervalRef := None\<rparr>
         else s1)"

subsection \<open>The socket effect (lines 20-91)\<close>

text \<open>The cleanup the effect returns (lines 79-90).\<close>

definition effect_cleanup :: "app_state \<Rightarrow> app_state" where
  "effect_cleanup s =
     (let s1 = (if socketRef s \<noteq> None then s\<lparr>socketRef := None\<rparr> else s)
      in if truthy_id (streamIntervalRef s1)
         then (clearInterval (the (streamIntervalRef s1)) s1)\<lparr>streamIntervalRef := None\<rparr>
         else s1)"

text \<open>The effect body (lines 21-77): in video mode, with no socket, a socket is created
  and its handlers registered; they close over this render's \<^verbatim>\<open>isVideoStreaming\<close>.\<close>

definition effect_body :: "app_state \<Rightarrow> app_state" where
  "effect_body s =
     (if isVideoMode s \<and> socketRef s = None
      then s\<lparr>socketRef := Some \<lparr>sock_connected = False,
                                 sock_isVideoStreaming = isVideoStreaming s\<rparr>\<rparr>
      else s)"

text \<open>The dependency array (line 91).\<close>

definition effect_deps :: "app_state \<Rightarrow> bool \<times> bool" where
  "effect_deps s = (isVideoMode s, isVideoStreaming s)"

text \<open>After a handler has run, React renders again and commits: when a dependency of
  the effect differs from its value at the previous commit, the previous cleanup runs and
  then the effect body.\<close>

definition commit :: "bool \<times> bool \<Rightarrow> app_state \<Rightarrow> app_state" where
  "commit deps0 s = (if effect_deps s \<noteq> deps0 then effect_body (effect_cleanup s) else s)"

subsection \<open>Socket handlers (lines 32-68)\<close>

definition on_connect :: "app_state \<Rightarrow> app_state" where
  "on_connect s = s\<lparr>errorMessage := None\<rparr>"

definition on_connect_error :: "socket \<Rightarrow> string \<Rightarrow> app_state \<Rightarrow> app_state" where
  "on_connect_error sock msg s =
     (let s1 = s\<lparr>errorMessage :=
                  Some (''Connection error: '' @ msg @ ''. Please check if the server is running.'')\<rparr>
      in if sock_isVideoStreaming sock then stopVideoStreaming s1 else s1)"

definition on_processed_frame :: "payload \<Rightarrow> app_state \<Rightarrow> app_state" where
  "on_processed_frame data s = s\<lparr>processedVideoFrame := get_field ''frame'' data\<rparr>"

text \<open>The \<^verbatim>\<open>error\<close> event handler (lines 52-55).\<close>

definition on_error :: "payload \<Rightarrow> app_state \<Rightarrow> app_state" where
  "on_error data s = s\<lparr>errorMessage := get_field ''message'' data\<rparr>"

definition on_disconnect :: "socket \<Rightarrow> string \<Rightarrow> app_state \<Rightarrow> app_state" where
  "on_disconnect sock reason s =
     (if reason = ''io server disconnect'' \<or> reason = ''transport close''
      then (let s1 = s\<lparr>errorMessage := Some ''Disconnected from server. Please try again.''\<rparr>
            in if sock_isVideoStreaming sock then stopVideoStreaming s1 else s1)
      else s)"

subsection \<open>Still images and mode switches\<close>

definition activateCamera :: "app_state \<Rightarrow> app_state" where
  "activateCamera s = s\<lparr>cameraActive := True\<rparr>"

definition resetCapture :: "app_state \<Rightarrow> app_state" where
  "resetCapture s =
     s\<lparr>capturedImage := None, previewURL := None, imageURL := None, errorMessage := None\<rparr>"

text \<open>\<^verbatim>\<open>toggleVideoMode\<close> (lines 97-104).\<close>

definition toggleVideoMode :: "app_state \<Rightarrow> app_state" where
  "toggleVideoMode s =
     (let s1 = resetCapture (s\<lparr>isVideoMode := \<not> isVideoMode s\<rparr>)
      in if isVideoStreaming s then stopVideoStreaming s1 else s1)"

text \<open>The \<^verbatim>\<open>toBlob\<close> callback of \<^verbatim>\<open>captureImage\<close> (lines 179-188) for a blob and
  the object URL the browser gives it.\<close>

definition captureImage :: "string \<Rightarrow> string \<Rightarrow> app_state \<Rightarrow> app_state" where
  "captureImage blob url s =
     s\<lparr>capturedImage := Some \<lparr>file_name = ''camera-capture.jpg'',
                                file_type = ''image/jpeg'', file_blob = blob\<rparr>,
       previewURL := Some url,
       cameraActive := False\<rparr>"

text \<open>The \<^verbatim>\<open>catch\<close> of \<^verbatim>\<open>getUserMedia\<close> in the camera component (lines 473-479).\<close>

definition camera_denied :: "app_state \<Rightarrow> app_state" where
  "camera_denied s =
     s\<lparr>cameraActive := False,
       errorMessage := Some ''Unable to access camera. Please check permissions.''\<rparr>"

text \<open>The \<^verbatim>\<open>catch\<close> of \<^verbatim>\<open>getUserMedia\<close> in the video component (lines 268-276);
  \<^verbatim>\<open>streamError\<close> is local to that component.\<close>

definition stream_denied :: "app_state \<Rightarrow> app_state" where
  "stream_denied s =
     s\<lparr>errorMessage := Some ''Unable to access camera. Please check permissions.''\<rparr>"

text \<open>\<^verbatim>\<open>handleProcess\<close> up to the \<^verbatim>\<open>await fetch\<close> (lines 192-209); \<open>api\<close> is
  \<^verbatim>\<open>import.meta.env.VITE_API_URL\<close>.\<close>

definition still_url :: "string \<Rightarrow> string \<Rightarrow> string" where
  "still_url api d = ''http://'' @ api @ '':5000/correct/'' @ d @ ''?strength=1.0''"

definition handleProcess :: "string \<Rightarrow> app_state \<Rightarrow> app_state" where
  "handleProcess api s =
     (case capturedImage s of
        None \<Rightarrow> s
      | Some img \<Rightarrow>
          s\<lparr>isLoading := True,
            errorMessage := None,
            requests := requests s @
              [\<lparr>req_url = still_url api (deficiency s), req_method = ''POST'',
                req_body = [(''image'', img)]\<rparr>]\<rparr>)"

text \<open>What \<^verbatim>\<open>fetch\<close> comes back with: it rejects with an error message, or resolves
  to a response. Of a response the handler reads \<^verbatim>\<open>ok\<close>, then either \<^verbatim>\<open>json()\<close>
  (which rejects with a message when the body is not JSON, and otherwise gives the
  object) or \<^verbatim>\<open>blob()\<close>, for which the browser makes an object URL.\<close>

record http_response =
  res_ok :: bool
  res_json :: "string + payload"
  res_blob_url :: string

datatype fetch_result = Rejected string | Resolved http_response

text \<open>\<^verbatim>\<open>handleProcess\<close> from the \<^verbatim>\<open>await fetch\<close> on (lines 211-226). Whatever is
  thrown inside the \<^verbatim>\<open>try\<close> is an \<^verbatim>\<open>Error\<close>, whose message is displayed.\<close>

definition handleProcess_result :: "fetch_result \<Rightarrow> app_state \<Rightarrow> app_state" where
  "handleProcess_result r s =
     (case r of
        Rejected msg \<Rightarrow> s\<lparr>errorMessage := Some msg, isLoading := False\<rparr>
      | Resolved res \<Rightarrow>
          if \<not> res_ok res then
            (case res_json res of
               Inl msg \<Rightarrow> s\<lparr>errorMessage := Some msg, isLoading := False\<rparr>
             | Inr errorData \<Rightarrow>
                 s\<lparr>errorMessage :=
                     Some (or_else (get_field ''error'' errorData) ''Failed to process image''),
                   isLoading := False\<rparr>)
          else s\<lparr>imageURL := Some (res_blob_url res), isLoading := False\<rparr>)"

text \<open>The \<^verbatim>\<open>onChange\<close> of the deficiency \<^verbatim>\<open>select\<close> (lines 634-639).\<close>

definition select_onChange :: "string \<Rightarrow> app_state \<Rightarrow> app_state" where
  "select_onChange v s =
     (let s1 = s\<lparr>deficiency := v\<rparr>
      in if isVideoMode s \<and> isVideoStreaming s then s1\<lparr>processedVideoFrame := None\<rparr> else s1)"

text \<open>The \<^verbatim>\<open>onplaying\<close> handler of the video component (lines 259-265): unless this
  render's \<^verbatim>\<open>isVideoStreaming\<close> is set, it asks for this render's
  \<^verbatim>\<open>startVideoStreaming\<close> to be called in 500 ms. The pending call keeps the
  \<^verbatim>\<open>deficiency\<close> of that render.\<close>

definition onplaying :: "app_state \<Rightarrow> app_state" where
  "onplaying s =
     (if \<not> isVideoStreaming s then s\<lparr>timeouts := timeouts s @ [deficiency s]\<rparr> else s)"

subsection \<open>Events\<close>

datatype event =
    ToggleVideoMode
  | ClickStart
  | ClickStop
  | Select string
  | VideoPlaying
  | StreamDenied
  | TimeoutFires nat
  | IntervalFires nat video_env
  | SocketConnect
  | SocketConnectError string
  | SocketProcessedFrame payload
  | SocketError payload
  | SocketDisconnect string
  | ActivateCamera
  | CameraDenied
  | CaptureImage string string
  | ResetCapture
  | ClickProcess
  | FetchSettles fetch_result

text \<open>When an event can happen: a button must be on the page, a \<^verbatim>\<open>select\<close> can only
  take the value of one of its options, a timer must be pending or live, a socket event
  needs the socket.\<close>

fun enabled :: "event \<Rightarrow> app_state \<Rightarrow> bool" where
  "enabled ToggleVideoMode s = True"
| "enabled ClickStart s = (isVideoMode s \<and> \<not> isVideoStreaming s)"
| "enabled ClickStop s = (isVideoMode s \<and> isVideoStreaming s)"
| "enabled (Select v) s = (v \<in> set deficiency_options)"
| "enabled VideoPlaying s = isVideoMode s"
| "enabled StreamDenied s = isVideoMode s"
| "enabled (TimeoutFires n) s = (n < length (timeouts s))"
| "enabled (IntervalFires i env) s = (i \<in> timer_id ` set (intervals s))"
| "enabled SocketConnect s = (socketRef s \<noteq> None)"
| "enabled (SocketConnectError msg) s = (socketRef s \<noteq> None)"
| "enabled (SocketProcessedFrame data) s = (socketRef s \<noteq> None)"
| "enabled (SocketError data) s = (socketRef s \<noteq> None)"
| "enabled (SocketDisconnect reason) s = (socketRef s \<noteq> None)"
| "enabled ActivateCamera s = (\<not> isVideoMode s \<and> \<not> cameraActive s \<and> capturedImage s = None)"
| "enabled CameraDenied s = (\<not> isVideoMode s \<and> cameraActive s)"
| "enabled (CaptureImage blob url) s = (\<not> isVideoMode s \<and> cameraActive s)"
| "enabled ResetCapture s = (\<not> isVideoMode s \<and> (truthy (previewURL s) \<or> truthy (imageURL s)))"
| "enabled ClickProcess s =
     (\<not> isVideoMode s \<and> truthy (previewURL s) \<and> \<not> truthy (imageURL s) \<and> \<not> isLoading s)"
| "enabled (FetchSettles r) s = isLoading s"

definition set_connected :: "bool \<Rightarrow> app_state \<Rightarrow> app_state" where
  "set_connected b s =
     (case socketRef s of None \<Rightarrow> s | Some sock \<Rightarrow> s\<lparr>socketRef := Some (sock\<lparr>sock_connected := b\<rparr>)\<rparr>)"

definition the_socket :: "app_state \<Rightarrow> socket" where
  "the_socket s =
     (case socketRef s of None \<Rightarrow> \<lparr>sock_connected = False, sock_isVideoStreaming = False\<rparr>
      | Some sock \<Rightarrow> sock)"

definition timer_closure :: "nat \<Rightarrow> app_state \<Rightarrow> string option" where
  "timer_closure i s = map_option timer_deficiency (find (\<lambda>t. timer_id t = i) (intervals s))"

text \<open>The handler each event runs. A timeout that fires is removed from the pending
  ones and calls its \<^verbatim>\<open>startVideoStreaming\<close>; an interval that fires runs its
  callback and stays live.\<close>

fun handler :: "string \<Rightarrow> event \<Rightarrow> app_state \<Rightarrow> app_state" where
  "handler api ToggleVideoMode s = toggleVideoMode s"
| "handler api ClickStart s = startVideoStreaming (deficiency s) s"
| "handler api ClickStop s = stopVideoStreaming s"
| "handler api (Select v) s = select_onChange v s"
| "handler api VideoPlaying s = onplaying s"
| "handler api StreamDenied s = stream_denied s"
| "handler api (TimeoutFires n) s =
     startVideoStreaming (timeouts s ! n)
       (s\<lparr>timeouts := take n (timeouts s) @ drop (Suc n) (timeouts s)\<rparr>)"
| "handler api (IntervalFires i env) s =
     (case timer_closure i s of None \<Rightarrow> s | Some d \<Rightarrow> interval_callback d env s)"
| "handler api SocketConnect s = on_connect (set_connected True s)"
| "handler api (SocketConnectError msg) s = on_connect_error (the_socket s) msg s"
| "handler api (SocketProcessedFrame data) s = on_processed_frame data s"
| "handler api (SocketError data) s = on_error data s"
| "handler api (SocketDisconnect reason) s =
     on_disconnect (the_socket s) reason (set_connected False s)"
| "handler api ActivateCamera s = activateCamera s"
| "handler api CameraDenied s = camera_denied s"
| "handler api (CaptureImage blob url) s = captureImage blob url s"
| "handler api ResetCapture s = resetCapture s"
| "handler api ClickProcess s = handleProcess api s"
| "handler api (FetchSettles r) s = handleProcess_result r s"

text \<open>One step: the handler of an enabled event runs to its end, then React commits.
  An event that is not enabled leaves the state as it is.\<close>

definition step :: "string \<Rightarrow> event \<Rightarrow> app_state \<Rightarrow> app_state" where
  "step api e s = (if enabled e s then commit (effect_deps s) (handler api e s) else s)"

definition run :: "string \<Rightarrow> event list \<Rightarrow> app_state \<Rightarrow> app_state" where
  "run api es s = foldl (\<lambda>t e. step api e t) s es"

definition reachable :: "string \<Rightarrow> app_state \<Rightarrow> bool" where
  "reachable api s = (\<exists>es. s = run api es initial_state)"

text \<open>The events that call \<^verbatim>\<open>startVideoStreaming\<close>: the Start button and the
  timeout set by \<^verbatim>\<open>onplaying\<close>.\<close>

fun invokes_start :: "event \<Rightarrow> bool" where
  "invokes_start ClickStart = True"
| "invokes_start (TimeoutFires n) = True"
| "invokes_start e = False"

subsection \<open>Invariants of the reachable states\<close>

text \<open>The live interval timers are exactly what \<^verbatim>\<open>streamIntervalRef\<close> names: none
  when the ref is null, otherwise the one timer with that id, registered with a delay of
  100 ms; ids are positive and below the next id.\<close>

definition timers_ok :: "app_state \<Rightarrow> bool" where
  "timers_ok s =
     (0 < next_timer_id s \<and>
      (case streamIntervalRef s of
         None \<Rightarrow> intervals s = []
       | Some i \<Rightarrow> 0 < i \<and> i < next_timer_id s \<and>
           map (\<lambda>t. (timer_id t, timer_delay t)) (intervals s) = [(i, 100)]))"

text \<open>Every selector held anywhere (the state variable, a pending
  \<^verbatim>\<open>startVideoStreaming\<close>, a live interval callback) is an option of the
  \<^verbatim>\<open>select\<close>.\<close>

definition selectors_ok :: "app_state \<Rightarrow> bool" where
  "selectors_ok s =
     (deficiency s \<in> set deficiency_options \<and>
      set (timeouts s) \<subseteq> set deficiency_options \<and>
      timer_deficiency ` set (intervals s) \<subseteq> set deficiency_options)"


text \<open>A well-formed streaming message: event \<^verbatim>\<open>video_frame\<close>, fields
  \<^verbatim>\<open>frame\<close> and \<^verbatim>\<open>deficiency\<close> in this order and no other, the frame a JPEG
  data URL, the selector one of the three.\<close>

definition message_ok :: "string \<times> payload \<Rightarrow> bool" where
  "message_ok m =
     (fst m = ''video_frame'' \<and>
      map fst (snd m) = [''frame'', ''deficiency''] \<and>
      startsWith (snd (snd m ! 0)) ''data:image/jpeg;base64,'' \<and>
      snd (snd m ! 1) \<in> set deficiency_options)"

subsection \<open>Reading a decimal literal\<close>




section \<open>The colour model (server side, absent from the sources)\<close>

text \<open>
  The functions \<^verbatim>\<open>simulate\<close> and \<^verbatim>\<open>correct\<close> belong to the server, whose code
  is not among the sources. They are modelled from sections 3, 4.2 and 4.3 of the
  specification, over the real numbers.
\<close>

text \<open>Modelled from the spec: a ConeColor (the server's colour types are missing), a
  triple of channel intensities, here a function from the three cone channels.\<close>

datatype channel = L | M | S

type_synonym cone_color = "channel \<Rightarrow> real"

text \<open>Modelled from the spec: DeficiencyType (the server's enumeration is missing), the
  closed enumeration of section 3.\<close>

datatype DeficiencyType = Protan | Deutan | Tritan

text \<open>Modelled from the spec: the channel a deficiency impairs (the server's table of
  deficiency types is missing); the other two are its pair of safe channels.\<close>

fun impaired :: "DeficiencyType \<Rightarrow> channel" where
  "impaired Protan = L"
| "impaired Deutan = M"
| "impaired Tritan = S"

text \<open>Modelled from the spec: the fixed 3x3 confusion-plane projection matrix of a
  deficiency type (the server's matrices are missing). By section 4.2 the projection
  zeroes out the component the viewer cannot resolve and preserves the two they can: the
  row of the impaired channel is zero, the other rows are those of the identity.\<close>

definition projection :: "DeficiencyType \<Rightarrow> channel \<Rightarrow> channel \<Rightarrow> real" where
  "projection D i j = (if i = impaired D then 0 else if i = j then 1 else 0)"

text \<open>Modelled from the spec: \<^verbatim>\<open>simulate(ConeColor, DeficiencyType)\<close> of the missing
  DeficiencyModel, the linear map of the projection matrix.\<close>

definition simulate :: "cone_color \<Rightarrow> DeficiencyType \<Rightarrow> cone_color" where
  "simulate c D = (\<lambda>i. projection D i L * c L + projection D i M * c M + projection D i S * c S)"

text \<open>Modelled from the spec: the valid colour range (the server's range check is
  missing), every intensity in [0, 1] (section 3).\<close>

definition valid_color :: "cone_color \<Rightarrow> bool" where
  "valid_color c = (0 \<le> c L \<and> c L \<le> 1 \<and> 0 \<le> c M \<and> c M \<le> 1 \<and> 0 \<le> c S \<and> c S \<le> 1)"

text \<open>Modelled from the spec: the clamping of section 4.3 (the server's clamp is
  missing): overflow is clipped to the valid range, never wrapped.\<close>

definition clamp_channel :: "real \<Rightarrow> real" where
  "clamp_channel x = max 0 (min 1 x)"

text \<open>Modelled from the spec: \<^verbatim>\<open>correct(original, simulated, DeficiencyType,
  StrengthFactor)\<close> of the missing Corrector (section 4.3). The error is
  \<open>original - simulated\<close>; scaled by the strength it is redistributed into the safe
  channels, the impaired channel is left unchanged, and the result is clamped. The
  specification does not give the redistribution weights: \<open>w D i j\<close> is the share of
  the error in channel \<open>j\<close> that goes to the safe channel \<open>i\<close>.\<close>

definition correct ::
  "(DeficiencyType \<Rightarrow> channel \<Rightarrow> channel \<Rightarrow> real) \<Rightarrow>
     cone_color \<Rightarrow> cone_color \<Rightarrow> DeficiencyType \<Rightarrow> real \<Rightarrow> cone_color" where
  "correct w original simulated D strength =
     (\<lambda>i. clamp_channel
        (if i = impaired D then original i
         else original i + strength *
           (w D i L * (original L - simulated L) +
            w D i M * (original M - simulated M) +
            w D i S * (original S - simulated S))))"

section \<open>Sample inputs\<close>

text \<open>A run that ends with a live interval: video mode is switched on, the video
  starts playing (which schedules \<^verbatim>\<open>startVideoStreaming\<close> in 500 ms), the user
  presses Start before that, the scheduled call then runs, and the socket connects.\<close>

definition streaming_state :: app_state where
  "streaming_state =
     run ''localhost'' [ToggleVideoMode, VideoPlaying, ClickStart, TimeoutFires 0, SocketConnect]
       initial_state"

text \<open>Two ticks on a playing 640x480 video: the canvas encodes as JPEG, or (on a browser
  without a JPEG encoder) as PNG.\<close>

definition jpeg_tick :: video_env where
  "jpeg_tick = \<lparr>element_present = True, readyState = 4, videoWidth = 640,
     videoHeight = 480, context_available = True, capture_throws = False,
     toDataURL = ''data:image/jpeg;base64,/9j/4AAQ''\<rparr>"

definition png_tick :: video_env where
  "png_tick = \<lparr>element_present = True, readyState = 4, videoWidth = 640,
     videoHeight = 480, context_available = True, capture_throws = False,
     toDataURL = ''data:image/png;base64,iVBORw0K''\<rparr>"

text \<open>A photo is taken and submitted for tritanopia.\<close>

definition still_state :: app_state where
  "still_state =
     run ''localhost'' [ActivateCamera, CaptureImage ''jpeg-bytes'' ''blob:1'',
       Select ''tritanopia'', ClickProcess] initial_state"

definition sample_color :: cone_color where
  "sample_color = (\<lambda>i. case i of L \<Rightarrow> 1 | M \<Rightarrow> 0 | S \<Rightarrow> 1 / 2)"

text \<open>The ordinary ways into streaming: the video starts playing and, 500 ms later, the
  call that \<^verbatim>\<open>onplaying\<close> scheduled runs; or the user presses Start. Then the
  socket connects.\<close>

definition started_state :: app_state where
  "started_state =
     run ''localhost'' [ToggleVideoMode, VideoPlaying, TimeoutFires 0, SocketConnect]
       initial_state"

definition clicked_state :: app_state where
  "clicked_state = run ''localhost'' [ToggleVideoMode, ClickStart, SocketConnect] initial_state"

text \<open>Events none of which is an action of the user: the video plays (twice, after a
  stall), the two calls this schedules run, the socket connects, the interval ticks.\<close>

definition automatic_events :: "event list" where
  "automatic_events =
     [VideoPlaying, VideoPlaying, TimeoutFires 0, TimeoutFires 0, SocketConnect,
      IntervalFires 4 jpeg_tick]"

text \<open>Payloads of the socket's \<^verbatim>\<open>error\<close> event: with the text under the key
  \<^verbatim>\<open>error\<close>, and under the key \<^verbatim>\<open>message\<close>.\<close>

definition error_shaped_event :: payload where
  "error_shaped_event = [(''error'', ''Invalid frame data'')]"

definition message_shaped_event :: payload where
  "message_shaped_event = [(''message'', ''Invalid frame data'')]"

text \<open>Failing responses of the still endpoint: a JSON object with the text under the key
  \<^verbatim>\<open>message\<close>, and under the key \<^verbatim>\<open>error\<close>.\<close>

definition failure_with_message :: http_response where
  "failure_with_message = \<lparr>res_ok = False,
     res_json = Inr [(''message'', ''Strength must be between 0 and 1'')], res_blob_url = []\<rparr>"

definition failure_with_error :: http_response where
  "failure_with_error = \<lparr>res_ok = False,
     res_json = Inr [(''error'', ''Strength must be between 0 and 1'')], res_blob_url = []\<rparr>"

section \<open>Properties of the client\<close>

subsection \<open>Runs\<close>

lemma run_Nil: "run api [] s = s"
  by (simp add: run_def)

lemma run_snoc: "run api (es @ [e]) s = step api e (run api es s)"
  by (simp add: run_def)

lemma reachable_run: "reachable api (run api es initial_state)"
  unfolding reachable_def by blast

lemma reachable_induct:
  assumes "reachable api s"
    and "P initial_state"
    and "\<And>t e. P t \<Longrightarrow> P (step api e t)"
  shows "P s"
proof -
  from assms(1) obtain es where s: "s = run api es initial_state"
    unfolding reachable_def by blast
  have "P (run api es initial_state)"
    by (induction es rule: rev_induct) (simp_all add: run_Nil run_snoc assms(2,3))
  with s show ?thesis by simp
qed

subsection \<open>At most one live timer\<close>

lemma timers_ok_initial: "timers_ok initial_state"
  by (simp add: timers_ok_def initial_state_def)

lemma timers_ok_start: "timers_ok s \<Longrightarrow> timers_ok (startVideoStreaming d s)"
  by (auto simp: timers_ok_def startVideoStreaming_def setInterval_def clearInterval_def
      truthy_id_def Let_def split: option.splits)

lemma timers_ok_stop: "timers_ok s \<Longrightarrow> timers_ok (stopVideoStreaming s)"
  by (auto simp: timers_ok_def stopVideoStreaming_def clearInterval_def
      truthy_id_def Let_def split: option.splits)

lemma timers_ok_cleanup: "timers_ok s \<Longrightarrow> timers_ok (effect_cleanup s)"
  by (auto simp: timers_ok_def effect_cleanup_def clearInterval_def
      truthy_id_def Let_def split: option.splits)

lemma timers_ok_body: "timers_ok s \<Longrightarrow> timers_ok (effect_body s)"
  by (simp add: timers_ok_def effect_body_def split: option.splits)

lemma timers_ok_commit: "timers_ok s \<Longrightarrow> timers_ok (commit d0 s)"
  by (simp add: commit_def timers_ok_body timers_ok_cleanup)

lemma timers_ok_callback: "timers_ok s \<Longrightarrow> timers_ok (interval_callback d env s)"
  by (simp add: timers_ok_def interval_callback_def split: option.splits)

lemma timers_ok_handler: "timers_ok s \<Longrightarrow> timers_ok (handler api e s)"
proof (cases e)
  case ClickStart
  assume "timers_ok s"
  then show ?thesis using ClickStart by (simp add: timers_ok_start)
next
  case ClickStop
  assume "timers_ok s"
  then show ?thesis using ClickStop by (simp add: timers_ok_stop)
next
  case ToggleVideoMode
  assume "timers_ok s"
  then have "timers_ok (resetCapture (s\<lparr>isVideoMode := \<not> isVideoMode s\<rparr>))"
    by (simp add: timers_ok_def resetCapture_def split: option.splits)
  then show ?thesis using ToggleVideoMode
    by (simp add: toggleVideoMode_def Let_def timers_ok_stop)
next
  case (TimeoutFires n)
  assume "timers_ok s"
  then have "timers_ok (s\<lparr>timeouts := take n (timeouts s) @ drop (Suc n) (timeouts s)\<rparr>)"
    by (simp add: timers_ok_def split: option.splits)
  then show ?thesis using TimeoutFires by (simp add: timers_ok_start)
next
  case (IntervalFires i env)
  assume "timers_ok s"
  then show ?thesis using IntervalFires
    by (simp add: timers_ok_callback split: option.splits)
next
  case (SocketConnectError msg)
  assume "timers_ok s"
  then have "timers_ok (s\<lparr>errorMessage :=
      Some (''Connection error: '' @ msg @ ''. Please check if the server is running.'')\<rparr>)"
    by (simp add: timers_ok_def split: option.splits)
  then show ?thesis using SocketConnectError
    by (simp add: on_connect_error_def Let_def timers_ok_stop)
next
  case (SocketDisconnect reason)
  assume "timers_ok s"
  then have b: "timers_ok (set_connected False s)"
    by (simp add: timers_ok_def set_connected_def split: option.splits)
  then have "timers_ok ((set_connected False s)\<lparr>errorMessage :=
      Some ''Disconnected from server. Please try again.''\<rparr>)"
    by (simp add: timers_ok_def split: option.splits)
  then show ?thesis using SocketDisconnect b
    by (simp add: on_disconnect_def Let_def timers_ok_stop)
qed (auto simp: timers_ok_def select_onChange_def onplaying_def
     stream_denied_def on_connect_def set_connected_def on_processed_frame_def on_error_def
     activateCamera_def camera_denied_def captureImage_def resetCapture_def handleProcess_def
     handleProcess_result_def Let_def split: option.splits fetch_result.splits sum.splits)

lemma timers_ok_step: "timers_ok s \<Longrightarrow> timers_ok (step api e s)"
  by (simp add: step_def timers_ok_commit timers_ok_handler)

lemma reachable_timers_ok: "reachable api s \<Longrightarrow> timers_ok s"
  by (erule reachable_induct) (simp_all add: timers_ok_initial timers_ok_step)

lemma timers_ok_intervals:
  assumes "timers_ok s"
  shows "length (intervals s) \<le> 1" and "\<forall>t \<in> set (intervals s). timer_delay t = 100"
proof -
  show "length (intervals s) \<le> 1"
  proof (cases "streamIntervalRef s")
    case None
    with assms show ?thesis by (simp add: timers_ok_def)
  next
    case (Some i)
    with assms have "map (\<lambda>t. (timer_id t, timer_delay t)) (intervals s) = [(i, 100)]"
      by (simp add: timers_ok_def)
    then have "length (map (\<lambda>t. (timer_id t, timer_delay t)) (intervals s)) = 1"
      by simp
    then show ?thesis by simp
  qed
  show "\<forall>t \<in> set (intervals s). timer_delay t = 100"
  proof (cases "streamIntervalRef s")
    case None
    with assms show ?thesis by (simp add: timers_ok_def)
  next
    case (Some i)
    with assms have "map (\<lambda>t. (timer_id t, timer_delay t)) (intervals s) = [(i, 100)]"
      by (simp add: timers_ok_def)
    then have "set (map (\<lambda>t. (timer_id t, timer_delay t)) (intervals s)) = {(i, 100)}"
      by simp
    then show ?thesis by auto
  qed
qed

lemma callback_emits_at_most_one:
  "length (emitted (interval_callback d env s)) \<le> Suc (length (emitted s))"
  by (simp add: interval_callback_def split: option.splits)

lemma commit_emitted: "emitted (commit d0 s) = emitted s"
  by (simp add: commit_def effect_body_def effect_cleanup_def clearInterval_def Let_def)

lemma step_interval_emitted:
  "length (emitted (step api (IntervalFires i env) s)) \<le> Suc (length (emitted s))"
  by (simp add: step_def commit_emitted callback_emits_at_most_one le_SucI split: option.splits)

text \<open>
  An upper bound on the rate of frames: in every reachable state at most one interval
  timer is live, every live timer was registered with a delay of 100 ms, and one firing
  of a timer emits at most one \<^verbatim>\<open>video_frame\<close> message. (That a timer of delay
  100 fires at most once in 100 ms is the browser's contract for \<^verbatim>\<open>setInterval\<close>.)
\<close>

theorem frames_on_fixed_100ms_interval:
  assumes "reachable api s"
  shows "length (intervals s) \<le> 1
       \<and> (\<forall>t \<in> set (intervals s). timer_delay t = 100)
       \<and> (\<forall>i env. length (emitted (step api (IntervalFires i env) s)) \<le> Suc (length (emitted s)))"
proof -
  have t: "timers_ok s"
    using assms by (rule reachable_timers_ok)
  from timers_ok_intervals [OF t] show ?thesis
    by (simp add: step_interval_emitted)
qed

theorem frames_on_fixed_100ms_interval_witness:
  "reachable ''localhost''
     (run ''localhost'' [ToggleVideoMode, VideoPlaying, ClickStart, TimeoutFires 0]
        initial_state)
   \<and> map timer_delay (intervals
       (run ''localhost'' [ToggleVideoMode, VideoPlaying, ClickStart, TimeoutFires 0]
          initial_state)) = [100]"
proof -
  have r: "reachable ''localhost''
     (run ''localhost'' [ToggleVideoMode, VideoPlaying, ClickStart, TimeoutFires 0]
        initial_state)"
    by (rule reachable_run)
  have "map timer_delay (intervals
       (run ''localhost'' [ToggleVideoMode, VideoPlaying, ClickStart, TimeoutFires 0]
          initial_state)) = [100]"
    by code_simp
  with r frames_on_fixed_100ms_interval [OF r] show ?thesis by simp
qed


lemmas commit_defs = commit_def effect_body_def effect_cleanup_def clearInterval_def

subsection \<open>Selectors and still-image requests\<close>

lemma selectors_ok_initial: "selectors_ok initial_state"
  by (simp add: selectors_ok_def initial_state_def deficiency_options_def)

lemma selectors_ok_commit: "selectors_ok s \<Longrightarrow> selectors_ok (commit d0 s)"
  by (auto simp: selectors_ok_def commit_defs Let_def)

lemma selectors_ok_start:
  "selectors_ok s \<Longrightarrow> d \<in> set deficiency_options \<Longrightarrow> selectors_ok (startVideoStreaming d s)"
  by (auto simp: selectors_ok_def startVideoStreaming_def setInterval_def clearInterval_def Let_def)

lemma selectors_ok_stop: "selectors_ok s \<Longrightarrow> selectors_ok (stopVideoStreaming s)"
  by (auto simp: selectors_ok_def stopVideoStreaming_def clearInterval_def Let_def)

lemma selectors_ok_handler:
  assumes "selectors_ok s" and "enabled e s"
  shows "selectors_ok (handler api e s)"
proof (cases e)
  case ClickStart
  from assms(1) have "deficiency s \<in> set deficiency_options"
    by (simp add: selectors_ok_def)
  with assms(1) show ?thesis using ClickStart by (simp add: selectors_ok_start)
next
  case ClickStop
  with assms show ?thesis by (simp add: selectors_ok_stop)
next
  case ToggleVideoMode
  from assms(1) have "selectors_ok (resetCapture (s\<lparr>isVideoMode := \<not> isVideoMode s\<rparr>))"
    by (simp add: selectors_ok_def resetCapture_def)
  then show ?thesis using ToggleVideoMode
    by (simp add: toggleVideoMode_def Let_def selectors_ok_stop)
next
  case (TimeoutFires n)
  with assms(2) have n: "n < length (timeouts s)" by simp
  with assms(1) have d: "timeouts s ! n \<in> set deficiency_options"
    by (auto simp: selectors_ok_def)
  have "set (take n (timeouts s) @ drop (Suc n) (timeouts s)) \<subseteq> set (timeouts s)"
    by (auto dest: in_set_takeD in_set_dropD)
  with assms(1) have "selectors_ok (s\<lparr>timeouts := take n (timeouts s) @ drop (Suc n) (timeouts s)\<rparr>)"
    by (simp add: selectors_ok_def) blast
  with d show ?thesis using TimeoutFires by (simp add: selectors_ok_start)
next
  case (SocketConnectError msg)
  from assms(1) have "selectors_ok (s\<lparr>errorMessage :=
      Some (''Connection error: '' @ msg @ ''. Please check if the server is running.'')\<rparr>)"
    by (simp add: selectors_ok_def)
  then show ?thesis using SocketConnectError
    by (simp add: on_connect_error_def Let_def selectors_ok_stop)
next
  case (SocketDisconnect reason)
  from assms(1) have b: "selectors_ok (set_connected False s)"
    by (simp add: selectors_ok_def set_connected_def split: option.splits)
  then have "selectors_ok ((set_connected False s)\<lparr>errorMessage :=
      Some ''Disconnected from server. Please try again.''\<rparr>)"
    by (simp add: selectors_ok_def)
  then show ?thesis using SocketDisconnect b
    by (simp add: on_disconnect_def Let_def selectors_ok_stop)
qed (use assms in \<open>auto simp: selectors_ok_def select_onChange_def onplaying_def
     stream_denied_def on_connect_def set_connected_def on_processed_frame_def on_error_def
     activateCamera_def camera_denied_def captureImage_def resetCapture_def handleProcess_def
     handleProcess_result_def interval_callback_def Let_def
     split: option.splits fetch_result.splits sum.splits\<close>)

lemma selectors_ok_step: "selectors_ok s \<Longrightarrow> selectors_ok (step api e s)"
  by (simp add: step_def selectors_ok_commit selectors_ok_handler)

lemma reachable_selectors_ok: "reachable api s \<Longrightarrow> selectors_ok s"
  by (erule reachable_induct) (simp_all add: selectors_ok_initial selectors_ok_step)














subsection \<open>Ticks of the interval\<close>

lemma commit_same: "effect_deps t = d0 \<Longrightarrow> commit d0 t = t"
  by (simp add: commit_def)

lemma callback_deps: "effect_deps (interval_callback d env s) = effect_deps s"
  by (simp add: interval_callback_def effect_deps_def split: option.splits)

lemma step_interval:
  "step api (IntervalFires i env) s =
     (case timer_closure i s of None \<Rightarrow> s | Some d \<Rightarrow> interval_callback d env s)"
proof (cases "timer_closure i s")
  case None
  then show ?thesis by (simp add: step_def commit_same)
next
  case (Some d)
  then have "enabled (IntervalFires i env) s"
    by (auto simp: timer_closure_def find_Some_iff image_iff)
  with Some show ?thesis by (simp add: step_def commit_same callback_deps)
qed

lemma callback_emits:
  "interval_callback d env s = s \<or>
   ((\<exists>sock. socketRef s = Some sock \<and> sock_connected sock)
     \<and> readyState env = HAVE_ENOUGH_DATA
     \<and> 0 < frame_width env \<and> 0 < frame_height env
     \<and> startsWith (toDataURL env) ''data:image/jpeg;base64,''
     \<and> interval_callback d env s =
         s\<lparr>emitted := emitted s @ [video_frame_message (toDataURL env) d]\<rparr>)"
  by (auto simp: interval_callback_def split: option.splits if_splits)

text \<open>
  C9. On a tick of the streaming interval a \<^verbatim>\<open>video_frame\<close> message is emitted only
  if the socket exists and is connected, the video element reports HAVE_ENOUGH_DATA, the
  width and height of the frame (the canvas size the callback computes, lines 124-125)
  are both strictly positive and the captured frame begins with
  \<^verbatim>\<open>data:image/jpeg;base64,\<close>. On a tick where one of these fails nothing is emitted
  and nothing else changes either: the state after the tick is the state before it, so
  the session goes on.
\<close>

theorem tick_emits_only_when_ready:
  "(emitted (step api (IntervalFires i env) s) \<noteq> emitted s \<longrightarrow>
      (\<exists>sock. socketRef s = Some sock \<and> sock_connected sock)
      \<and> readyState env = HAVE_ENOUGH_DATA
      \<and> 0 < frame_width env \<and> 0 < frame_height env
      \<and> startsWith (toDataURL env) ''data:image/jpeg;base64,'')
   \<and> (\<not> ((\<exists>sock. socketRef s = Some sock \<and> sock_connected sock)
          \<and> readyState env = HAVE_ENOUGH_DATA
          \<and> 0 < frame_width env \<and> 0 < frame_height env
          \<and> startsWith (toDataURL env) ''data:image/jpeg;base64,'') \<longrightarrow>
        step api (IntervalFires i env) s = s)"
proof (cases "timer_closure i s")
  case None
  then show ?thesis by (simp add: step_interval)
next
  case (Some d)
  then have "step api (IntervalFires i env) s = interval_callback d env s"
    by (simp add: step_interval)
  with callback_emits [of d env s] show ?thesis by auto
qed

theorem tick_emits_only_when_ready_witness:
  "emitted (step ''localhost'' (IntervalFires 2 jpeg_tick) streaming_state)
     \<noteq> emitted streaming_state
   \<and> startsWith (toDataURL jpeg_tick) ''data:image/jpeg;base64,''
   \<and> \<not> startsWith (toDataURL png_tick) ''data:image/jpeg;base64,''
   \<and> step ''localhost'' (IntervalFires 2 png_tick) streaming_state = streaming_state"
proof -
  have a: "emitted (step ''localhost'' (IntervalFires 2 jpeg_tick) streaming_state)
             \<noteq> emitted streaming_state"
    by code_simp
  have b: "\<not> startsWith (toDataURL png_tick) ''data:image/jpeg;base64,''"
    by code_simp
  from a b tick_emits_only_when_ready [of "''localhost''" 2 jpeg_tick streaming_state]
    tick_emits_only_when_ready [of "''localhost''" 2 png_tick streaming_state]
  show ?thesis by blast
qed

subsection \<open>The socket's error event\<close>

lemma step_socket_error:
  "socketRef s \<noteq> None \<Longrightarrow> step api (SocketError data) s = s\<lparr>errorMessage := get_field ''message'' data\<rparr>"
  by (simp add: step_def on_error_def commit_def effect_deps_def)

lemma callback_errorMessage:
  "interval_callback d env (s\<lparr>errorMessage := x\<rparr>) = (interval_callback d env s)\<lparr>errorMessage := x\<rparr>"
  by (simp add: interval_callback_def split: option.splits)

lemma step_interval_errorMessage:
  "step api (IntervalFires i env) (s\<lparr>errorMessage := x\<rparr>)
     = (step api (IntervalFires i env) s)\<lparr>errorMessage := x\<rparr>"
  by (simp add: step_interval timer_closure_def callback_errorMessage split: option.splits)

text \<open>
  C5, as stated, fails: an \<^verbatim>\<open>error\<close> event on the streaming channel whose payload
  has the shape \<^verbatim>\<open>{error: <message>}\<close> should have its message recorded as the
  visible error. The handler reads \<^verbatim>\<open>data.message\<close> (line 54), which such a payload
  does not have: the error message becomes undefined and nothing is displayed.
\<close>

theorem stream_error_event_counterexample:
  "isVideoStreaming streaming_state
   \<and> errorMessage (step ''localhost'' (SocketError error_shaped_event) streaming_state) = None
   \<and> \<not> truthy (errorMessage (step ''localhost'' (SocketError error_shaped_event) streaming_state))"
  by code_simp

text \<open>
  C5, amended. For every \<^verbatim>\<open>error\<close> event received on the streaming channel whose
  payload has a \<^verbatim>\<open>message\<close> field, the client records that field's text as the
  error message and does not end the streaming session: \<^verbatim>\<open>isVideoStreaming\<close>, the
  socket and the live interval are as before, and every later tick emits what it would
  have emitted without the error.
\<close>

theorem stream_error_event_keeps_session:
  assumes "socketRef s \<noteq> None" and "get_field ''message'' data = Some m"
  shows "errorMessage (step api (SocketError data) s) = Some m
       \<and> isVideoStreaming (step api (SocketError data) s) = isVideoStreaming s
       \<and> socketRef (step api (SocketError data) s) = socketRef s
       \<and> streamIntervalRef (step api (SocketError data) s) = streamIntervalRef s
       \<and> intervals (step api (SocketError data) s) = intervals s
       \<and> (\<forall>i env. emitted (step api (IntervalFires i env) (step api (SocketError data) s))
                   = emitted (step api (IntervalFires i env) s))"
  using assms by (simp add: step_socket_error step_interval_errorMessage)

theorem stream_error_event_keeps_session_witness:
  "socketRef streaming_state \<noteq> None
   \<and> get_field ''message'' message_shaped_event = Some ''Invalid frame data''
   \<and> errorMessage (step ''localhost'' (SocketError message_shaped_event) streaming_state)
       = Some ''Invalid frame data''
   \<and> isVideoStreaming (step ''localhost'' (SocketError message_shaped_event) streaming_state)
   \<and> emitted (step ''localhost'' (IntervalFires 2 jpeg_tick)
        (step ''localhost'' (SocketError message_shaped_event) streaming_state))
       = [video_frame_message (toDataURL jpeg_tick) ''deuteranopia'']"
proof -
  have a: "socketRef streaming_state \<noteq> None"
    by code_simp
  have b: "get_field ''message'' message_shaped_event = Some ''Invalid frame data''"
    by code_simp
  have c: "isVideoStreaming streaming_state"
    by code_simp
  have d: "emitted (step ''localhost'' (IntervalFires 2 jpeg_tick) streaming_state)
       = [video_frame_message (toDataURL jpeg_tick) ''deuteranopia'']"
    by code_simp
  from stream_error_event_keeps_session [OF a b, of "''localhost''"] a b c d
  show ?thesis by simp
qed

subsection \<open>Failing still-image requests\<close>

lemma commit_result: "commit (effect_deps s) (handleProcess_result r s) = handleProcess_result r s"
  by (rule commit_same)
     (simp add: handleProcess_result_def effect_deps_def split: fetch_result.splits sum.splits)

lemma step_fetch: "isLoading s \<Longrightarrow> step api (FetchSettles r) s = handleProcess_result r s"
  by (simp add: step_def commit_result)

text \<open>
  C4, as stated, fails: when a still-image request fails with a structured error payload
  that has a \<^verbatim>\<open>message\<close> field, the client should display that field's text. The
  client reads \<^verbatim>\<open>errorData.error\<close> (line 213): for a payload with only a
  \<^verbatim>\<open>message\<close> field it displays the fixed text \<^verbatim>\<open>Failed to process image\<close>.
\<close>

theorem still_failure_message_counterexample:
  "isLoading still_state
   \<and> \<not> res_ok failure_with_message
   \<and> res_json failure_with_message = Inr [(''message'', ''Strength must be between 0 and 1'')]
   \<and> errorMessage (step ''localhost'' (FetchSettles (Resolved failure_with_message)) still_state)
       = Some ''Failed to process image''"
  by code_simp

text \<open>
  C4, amended. For every still-image request that fails with a JSON object as payload,
  the client displays the text of the payload's \<^verbatim>\<open>error\<close> field when the field is
  present and not empty, and \<^verbatim>\<open>Failed to process image\<close> otherwise; no image is
  shown and loading ends.
\<close>

theorem still_failure_shows_error_field:
  assumes "isLoading s" and "\<not> res_ok res" and "res_json res = Inr errorData"
  shows "(\<forall>m. get_field ''error'' errorData = Some m \<and> m \<noteq> [] \<longrightarrow>
            errorMessage (step api (FetchSettles (Resolved res)) s) = Some m)
       \<and> (\<not> truthy (get_field ''error'' errorData) \<longrightarrow>
            errorMessage (step api (FetchSettles (Resolved res)) s) = Some ''Failed to process image'')
       \<and> imageURL (step api (FetchSettles (Resolved res)) s) = imageURL s
       \<and> \<not> isLoading (step api (FetchSettles (Resolved res)) s)"
  using assms
  by (simp add: step_fetch handleProcess_result_def or_else_def truthy_def split: option.splits)

theorem still_failure_shows_error_field_witness:
  "isLoading still_state \<and> \<not> res_ok failure_with_error
   \<and> errorMessage (step ''localhost'' (FetchSettles (Resolved failure_with_error)) still_state)
       = Some ''Strength must be between 0 and 1''"
proof -
  have a: "isLoading still_state" by code_simp
  have b: "\<not> res_ok failure_with_error" by code_simp
  have c: "res_json failure_with_error = Inr [(''error'', ''Strength must be between 0 and 1'')]"
    by code_simp
  have d: "get_field ''error'' [(''error'', ''Strength must be between 0 and 1'')]
             = Some ''Strength must be between 0 and 1''"
    by code_simp
  from still_failure_shows_error_field [OF a b c, of "''localhost''"] d a b
  show ?thesis by simp
qed

subsection \<open>Stopping\<close>

lemma run_Cons: "run api (e # es) s = run api es (step api e s)"
  by (simp add: run_def)

lemma commit_no_intervals: "intervals t = [] \<Longrightarrow> intervals (commit d0 t) = []"
  by (simp add: commit_defs Let_def)

lemma stop_quiet:
  "intervals s = [] \<Longrightarrow>
   intervals (stopVideoStreaming s) = [] \<and> emitted (stopVideoStreaming s) = emitted s"
  by (simp add: stopVideoStreaming_def clearInterval_def Let_def)

lemma handler_quiet:
  assumes "intervals s = []" and "\<not> invokes_start e" and "enabled e s"
  shows "intervals (handler api e s) = [] \<and> emitted (handler api e s) = emitted s"
  using assms
  by (cases e)
     (simp_all add: stop_quiet toggleVideoMode_def select_onChange_def
       onplaying_def stream_denied_def on_connect_def on_connect_error_def
       on_processed_frame_def on_error_def on_disconnect_def activateCamera_def camera_denied_def
       captureImage_def resetCapture_def handleProcess_def handleProcess_result_def
       set_connected_def Let_def
       split: option.splits fetch_result.splits sum.splits)

lemma quiet_step:
  assumes "intervals s = []" and "\<not> invokes_start e"
  shows "intervals (step api e s) = [] \<and> emitted (step api e s) = emitted s"
proof (cases "enabled e s")
  case True
  with assms handler_quiet [of s e api]
  show ?thesis by (simp add: step_def commit_no_intervals commit_emitted)
next
  case False
  with assms show ?thesis by (simp add: step_def)
qed

lemma quiet_run:
  "intervals s = [] \<Longrightarrow> list_all (\<lambda>e. \<not> invokes_start e) es \<Longrightarrow>
   intervals (run api es s) = [] \<and> emitted (run api es s) = emitted s"
proof (induction es arbitrary: s)
  case Nil
  then show ?case by (simp add: run_Nil)
next
  case (Cons e es)
  from Cons.prems have q: "intervals (step api e s) = [] \<and> emitted (step api e s) = emitted s"
    by (simp add: quiet_step)
  with Cons.IH [of "step api e s"] Cons.prems show ?case
    by (simp add: run_Cons)
qed

lemma stop_fields:
  "\<not> isVideoStreaming (stopVideoStreaming s) \<and> processedVideoFrame (stopVideoStreaming s) = None"
  by (simp add: stopVideoStreaming_def clearInterval_def Let_def)

lemma stop_timers:
  assumes "timers_ok s"
  shows "streamIntervalRef (stopVideoStreaming s) = None \<and> intervals (stopVideoStreaming s) = []"
  using assms
  by (auto simp: timers_ok_def stopVideoStreaming_def clearInterval_def truthy_id_def Let_def
      split: option.splits)

lemma stop_emitted: "emitted (stopVideoStreaming s) = emitted s"
  by (simp add: stopVideoStreaming_def clearInterval_def Let_def)

text \<open>
  C10, as stated, fails: after \<^verbatim>\<open>stopVideoStreaming\<close> has returned, no further
  \<^verbatim>\<open>video_frame\<close> message should be emitted until streaming is explicitly
  restarted. \<^verbatim>\<open>stopVideoStreaming\<close> cancels no pending
  \<^verbatim>\<open>setTimeout(startVideoStreaming, 500)\<close>, and once \<^verbatim>\<open>isVideoStreaming\<close> is
  false the \<^verbatim>\<open>onplaying\<close> handler schedules such calls again (lines 259-265): after
  the user has pressed Stop, events that are no action of the user end with a frame
  emitted.
\<close>

theorem stop_then_automatic_restart_emits:
  "\<not> isVideoStreaming (step ''localhost'' ClickStop streaming_state)
   \<and> streamIntervalRef (step ''localhost'' ClickStop streaming_state) = None
   \<and> intervals (step ''localhost'' ClickStop streaming_state) = []
   \<and> emitted (step ''localhost'' ClickStop streaming_state) = []
   \<and> ClickStart \<notin> set automatic_events
   \<and> emitted (run ''localhost'' automatic_events (step ''localhost'' ClickStop streaming_state))
       = [video_frame_message (toDataURL jpeg_tick) ''deuteranopia'']"
  by code_simp

text \<open>
  C10, amended. Every invocation of \<^verbatim>\<open>stopVideoStreaming\<close> sets
  \<^verbatim>\<open>isVideoStreaming\<close> to false, resets \<^verbatim>\<open>processedVideoFrame\<close> to null and
  clears the frame-capture interval, leaving the interval ref null and no timer live;
  after it has returned and React has committed, no run of events emits a
  \<^verbatim>\<open>video_frame\<close> message unless it calls \<^verbatim>\<open>startVideoStreaming\<close> again, be it
  from the Start button or from a call that \<^verbatim>\<open>onplaying\<close> scheduled. The hypothesis
  is the invariant of the timers, which holds in every reachable state
  (\<open>reachable_timers_ok\<close>) and is kept by every handler (\<open>timers_ok_handler\<close>),
  hence wherever the function is invoked.
\<close>

theorem stop_ends_emission:
  assumes "timers_ok s"
  shows "\<not> isVideoStreaming (stopVideoStreaming s)
       \<and> processedVideoFrame (stopVideoStreaming s) = None
       \<and> streamIntervalRef (stopVideoStreaming s) = None
       \<and> intervals (stopVideoStreaming s) = []
       \<and> (\<forall>d0 es. list_all (\<lambda>e. \<not> invokes_start e) es \<longrightarrow>
            emitted (run api es (commit d0 (stopVideoStreaming s))) = emitted s)"
proof -
  from assms have t: "streamIntervalRef (stopVideoStreaming s) = None"
    and i: "intervals (stopVideoStreaming s) = []"
    by (simp_all add: stop_timers)
  have "emitted (run api es (commit d0 (stopVideoStreaming s))) = emitted s"
    if "list_all (\<lambda>e. \<not> invokes_start e) es" for d0 es
  proof -
    from i have "intervals (commit d0 (stopVideoStreaming s)) = []"
      by (rule commit_no_intervals)
    from quiet_run [OF this that, of api] show ?thesis
      by (simp add: commit_emitted stop_emitted)
  qed
  with t i show ?thesis by (simp add: stop_fields)
qed

theorem stop_ends_emission_witness:
  "timers_ok streaming_state
   \<and> intervals streaming_state \<noteq> []
   \<and> intervals (stopVideoStreaming streaming_state) = []
   \<and> emitted (run ''localhost'' [SocketConnect, Select ''protanopia'', VideoPlaying]
        (commit (True, True) (stopVideoStreaming streaming_state))) = emitted streaming_state"
proof -
  have "reachable ''localhost'' streaming_state"
    unfolding streaming_state_def by (rule reachable_run)
  then have t: "timers_ok streaming_state"
    by (rule reachable_timers_ok)
  have n: "intervals streaming_state \<noteq> []"
    by code_simp
  have q: "list_all (\<lambda>e. \<not> invokes_start e) [SocketConnect, Select ''protanopia'', VideoPlaying]"
    by simp
  from stop_ends_emission [OF t, of "''localhost''"] q t n show ?thesis
    by blast
qed

subsection \<open>The selector carried by a frame\<close>

text \<open>Every message emitted is well formed: event \<^verbatim>\<open>video_frame\<close>, exactly the
  fields \<^verbatim>\<open>frame\<close> and \<^verbatim>\<open>deficiency\<close> (so no strength), a JPEG data URL, one
  of the three selectors.\<close>

lemma message_ok_video_frame:
  "startsWith f ''data:image/jpeg;base64,'' \<Longrightarrow> d \<in> set deficiency_options \<Longrightarrow>
   message_ok (video_frame_message f d)"
  by (simp add: message_ok_def video_frame_message_def)

lemma callback_messages_ok:
  assumes "list_all message_ok (emitted s)" and "d \<in> set deficiency_options"
  shows "list_all message_ok (emitted (interval_callback d env s))"
proof -
  from callback_emits [of d env s] show ?thesis
  proof
    assume "interval_callback d env s = s"
    with assms show ?thesis by simp
  next
    assume a: "(\<exists>sock. socketRef s = Some sock \<and> sock_connected sock)
     \<and> readyState env = HAVE_ENOUGH_DATA
     \<and> 0 < frame_width env \<and> 0 < frame_height env
     \<and> startsWith (toDataURL env) ''data:image/jpeg;base64,''
     \<and> interval_callback d env s =
         s\<lparr>emitted := emitted s @ [video_frame_message (toDataURL env) d]\<rparr>"
    then have "message_ok (video_frame_message (toDataURL env) d)"
      using assms(2) by (simp add: message_ok_video_frame)
    with a assms(1) show ?thesis by simp
  qed
qed

lemma timer_closure_selector:
  "selectors_ok s \<Longrightarrow> timer_closure i s = Some d \<Longrightarrow> d \<in> set deficiency_options"
  by (auto simp: selectors_ok_def timer_closure_def find_Some_iff)

lemma messages_ok_step:
  assumes "selectors_ok s" and "list_all message_ok (emitted s)"
  shows "list_all message_ok (emitted (step api e s))"
proof (cases "\<exists>i env. e = IntervalFires i env")
  case True
  then obtain i env where e: "e = IntervalFires i env" by blast
  show ?thesis
  proof (cases "timer_closure i s")
    case None
    with e assms(2) show ?thesis by (simp add: step_interval)
  next
    case (Some d)
    with assms(1) have "d \<in> set deficiency_options"
      by (simp add: timer_closure_selector)
    with assms(2) Some e show ?thesis
      by (simp add: step_interval callback_messages_ok)
  qed
next
  case False
  have "emitted (step api e s) = emitted s"
  proof (cases "enabled e s")
    case True
    have "emitted (handler api e s) = emitted s"
      using False
      by (cases e)
         (simp_all add: stopVideoStreaming_def startVideoStreaming_def setInterval_def
           clearInterval_def toggleVideoMode_def select_onChange_def
           onplaying_def stream_denied_def on_connect_def on_connect_error_def
           on_processed_frame_def on_error_def on_disconnect_def activateCamera_def
           camera_denied_def captureImage_def resetCapture_def handleProcess_def
           handleProcess_result_def set_connected_def Let_def
           split: option.splits fetch_result.splits sum.splits)
    with True show ?thesis by (simp add: step_def commit_emitted)
  next
    case False
    then show ?thesis by (simp add: step_def)
  qed
  with assms(2) show ?thesis by simp
qed

lemma reachable_messages_ok:
  assumes "reachable api s"
  shows "list_all message_ok (emitted s)"
proof -
  have "selectors_ok s \<and> list_all message_ok (emitted s)"
    using assms
    by (rule reachable_induct)
       (simp_all add: selectors_ok_initial selectors_ok_step messages_ok_step,
        simp add: initial_state_def)
  then show ?thesis ..
qed

text \<open>A start that changes \<^verbatim>\<open>isVideoStreaming\<close> changes a dependency of the socket
  effect, whose cleanup clears the interval just created at the next commit. An interval
  stays live when \<^verbatim>\<open>startVideoStreaming\<close> is called while \<^verbatim>\<open>isVideoStreaming\<close>
  is already set, as in the run to \<open>streaming_state\<close>.\<close>

lemma first_start_is_cleaned_up:
  assumes "timers_ok s" and "\<not> isVideoStreaming s"
  shows "intervals (commit (effect_deps s) (startVideoStreaming d s)) = []"
proof -
  from assms(1) have "timers_ok (startVideoStreaming d s)"
    by (rule timers_ok_start)
  then have "timers_ok (effect_cleanup (startVideoStreaming d s))"
    by (rule timers_ok_cleanup)
  moreover have "streamIntervalRef (effect_cleanup (startVideoStreaming d s)) = None"
    using assms(1)
    by (simp add: effect_cleanup_def startVideoStreaming_def setInterval_def clearInterval_def
        truthy_id_def timers_ok_def Let_def)
  ultimately have "intervals (effect_cleanup (startVideoStreaming d s)) = []"
    by (simp add: timers_ok_def)
  moreover have "effect_deps (startVideoStreaming d s) \<noteq> effect_deps s"
    using assms(2)
    by (simp add: effect_deps_def startVideoStreaming_def setInterval_def clearInterval_def
        Let_def)
  ultimately show ?thesis
    by (simp add: commit_def effect_body_def)
qed

text \<open>After such a start \<^verbatim>\<open>isVideoStreaming\<close> is set, and nothing is emitted until
  \<^verbatim>\<open>startVideoStreaming\<close> is called once more.\<close>

lemma no_frames_after_first_start:
  assumes "timers_ok s" and "\<not> isVideoStreaming s"
    and "list_all (\<lambda>e. \<not> invokes_start e) es"
  shows "isVideoStreaming (commit (effect_deps s) (startVideoStreaming d s))
       \<and> emitted (run api es (commit (effect_deps s) (startVideoStreaming d s))) = emitted s"
proof -
  have i: "intervals (commit (effect_deps s) (startVideoStreaming d s)) = []"
    using assms(1,2) by (rule first_start_is_cleaned_up)
  have e: "emitted (startVideoStreaming d s) = emitted s"
    by (simp add: startVideoStreaming_def setInterval_def clearInterval_def Let_def)
  have v: "isVideoStreaming (commit (effect_deps s) (startVideoStreaming d s))"
    by (simp add: commit_defs startVideoStreaming_def setInterval_def Let_def)
  from quiet_run [OF i assms(3), of api] e v show ?thesis
    by (simp add: commit_emitted)
qed

text \<open>
  C6. While streaming is active, the client should submit frames on a fixed interval of
  100 milliseconds. After the scheduled start, and likewise after a press of Start,
  \<^verbatim>\<open>isVideoStreaming\<close> is set and the socket is connected, but the interval that
  \<^verbatim>\<open>startVideoStreaming\<close> created has been cleared by the cleanup of the socket
  effect (\<^verbatim>\<open>isVideoStreaming\<close> is one of its dependencies): no timer is live, and
  no frame is submitted however long the video plays.
\<close>

theorem streaming_without_interval:
  "isVideoStreaming started_state
   \<and> socketRef started_state = Some \<lparr>sock_connected = True, sock_isVideoStreaming = True\<rparr>
   \<and> streamIntervalRef started_state = None
   \<and> intervals started_state = []
   \<and> emitted (run ''localhost''
        [IntervalFires 1 jpeg_tick, SocketProcessedFrame [], IntervalFires 1 jpeg_tick,
         VideoPlaying, IntervalFires 1 jpeg_tick] started_state) = []
   \<and> isVideoStreaming clicked_state
   \<and> intervals clicked_state = []"
  by code_simp

text \<open>
  C1. When the client changes the selected deficiency while streaming is active, every
  \<^verbatim>\<open>video_frame\<close> message emitted after the change should carry the new selection.
  The interval callback instead keeps the \<^verbatim>\<open>deficiency\<close> of the render whose
  \<^verbatim>\<open>startVideoStreaming\<close> created it: here streaming runs with deuteranopia, the
  user selects protanopia, nothing has been emitted yet, and the next tick emits a frame
  for deuteranopia.
\<close>

theorem stale_deficiency_after_change:
  "isVideoStreaming streaming_state
   \<and> deficiency streaming_state = ''deuteranopia''
   \<and> deficiency (step ''localhost'' (Select ''protanopia'') streaming_state) = ''protanopia''
   \<and> emitted (step ''localhost'' (Select ''protanopia'') streaming_state) = []
   \<and> emitted (step ''localhost'' (IntervalFires 2 jpeg_tick)
        (step ''localhost'' (Select ''protanopia'') streaming_state))
       = [video_frame_message (toDataURL jpeg_tick) ''deuteranopia'']"
  by code_simp

text \<open>
  C2. Every message emitted on the \<^verbatim>\<open>video_frame\<close> channel should have exactly the
  fields \<^verbatim>\<open>frame\<close> and \<^verbatim>\<open>deficiency\<close>, the latter being the currently selected
  selector. The fields are as claimed, but the selector is the one the interval callback
  closed over: with tritanopia selected, two ticks emit two frames for deuteranopia.
\<close>

theorem frame_message_selector_not_current:
  "deficiency (run ''localhost'' [Select ''tritanopia'', IntervalFires 2 jpeg_tick,
       IntervalFires 2 jpeg_tick] streaming_state) = ''tritanopia''
   \<and> map (\<lambda>m. (fst m, map fst (snd m), get_field ''deficiency'' (snd m)))
       (emitted (run ''localhost'' [Select ''tritanopia'', IntervalFires 2 jpeg_tick,
          IntervalFires 2 jpeg_tick] streaming_state))
     = [(''video_frame'', [''frame'', ''deficiency''], Some ''deuteranopia''),
        (''video_frame'', [''frame'', ''deficiency''], Some ''deuteranopia'')]"
  by code_simp

section \<open>Properties of the colour model\<close>

text \<open>
  C7. For every colour C and every deficiency type D, simulating twice gives what
  simulating once gives: the confusion-plane projection is idempotent. Over the reals
  the two colours are equal, hence within every tolerance.
\<close>

theorem simulate_idempotent: "simulate (simulate C D) D = simulate C D"
  by (cases D) (auto simp: simulate_def projection_def fun_eq_iff)

text \<open>
  C8. For every colour C (intensities in the valid range) and every deficiency type D,
  correcting C against its simulation at strength 0 returns C, whatever the
  redistribution weights.
\<close>

theorem correct_identity_at_zero_strength:
  assumes "valid_color C"
  shows "correct w C (simulate C D) D 0 = C"
proof
  fix i
  from assms have "0 \<le> C i \<and> C i \<le> 1"
    by (cases i) (simp_all add: valid_color_def)
  then show "correct w C (simulate C D) D 0 i = C i"
    by (auto simp: correct_def clamp_channel_def)
qed

theorem correct_identity_at_zero_strength_witness:
  "valid_color sample_color
   \<and> correct (\<lambda>D i j. 7 / 10) sample_color (simulate sample_color Deutan) Deutan 0
       = sample_color"
proof -
  have v: "valid_color sample_color"
    by (simp add: valid_color_def sample_color_def)
  from v correct_identity_at_zero_strength [OF v] show ?thesis by simp
qed

end
